theory Spec2Isabelle
  imports Main "HOL-Library.Word"
begin

section \<open>The TCP underlay of protocolv2 (src/pkg/protocolv2/underlay_tcp.go)\<close>

text \<open>
  A shallow embedding of \<^verbatim>\<open>underlay_tcp.go\<close>. Every method of \<^verbatim>\<open>TCPUnderlay\<close> takes the
  state it touches and returns the updated state next to its result. Errors are values of
  the type \<open>error\<close>; a Go panic is the error \<open>Panic\<close>.

  The packages \<^verbatim>\<open>cipher\<close>, \<^verbatim>\<open>replay\<close>, \<^verbatim>\<open>rng\<close> and \<^verbatim>\<open>net\<close>, and the segment codec of
  \<^verbatim>\<open>protocolv2\<close>, live in other files. Their operations are the fields of
  the record \<open>env\<close>: every definition below takes an \<open>env\<close> and calls the fields where the Go
  code calls the packages.
\<close>

subsection \<open>Bytes and errors\<close>

type_synonym byte = "8 word"
type_synonym bytes = "byte list"

datatype error =
    ErrNullPointer
  | ErrInvalidOperation
  | ErrInvalidArgument
  | EOF
  | ErrUnexpectedEOF
  | ErrClosed
  | EINVAL
  | External string
  | Panic string
  | NetworkNotSupported string
  | StatelessCipher
  | ResolveTCPAddrFailed error
  | DialContextFailed error
  | MetadataReadFailed nat error
  | PayloadReadFailed nat error
  | PaddingReadFailed nat error
  | ReplayAttack
  | SelectDecryptFailed error
  | DecryptFailed error
  | UnexpectedMetadataSize nat
  | UnmarshalFailed error
  | UnableToHandleProtocol byte
  | ReadOneSegmentFailed error
  | OnOpenSessionRequestFailed error
  | OnOpenSessionResponseFailed error
  | OnCloseSessionFailed error
  | ReservedSessionID "32 word"
  | SessionIDAlreadyUsed "32 word"
  | SessionIDNotFound "32 word"
  | MaybeInitSendBlockCipherFailed error
  | EncryptFailed error
  | WriteFailed error
  | RecvCipherNil

subsection \<open>Segments\<close>

text \<open>
  Modelled from the spec: the two metadata structures of the segment codec (their Go
  declarations live in another file). The fields are those of the spec's data
  model, with the widths given there.
\<close>

record sessionStruct =
  ss_protocol :: byte
  ss_sessionID :: "32 word"
  ss_seq :: "32 word"
  ss_flags :: byte
  ss_payloadLen :: "16 word"
  ss_suffixLen :: byte

record dataAckStruct =
  das_protocol :: byte
  das_sessionID :: "32 word"
  das_seq :: "32 word"
  das_ack :: "32 word"
  das_window :: "16 word"
  das_payloadLen :: "16 word"
  das_prefixLen :: byte
  das_suffixLen :: byte

text \<open>
  The Go field \<^verbatim>\<open>segment.metadata\<close> is an interface value: a pointer to one of the two
  structures, or nil.
\<close>

datatype metadata =
    NilMetadata
  | SessionStruct sessionStruct
  | DataAckStruct dataAckStruct

record segment =
  metadata :: metadata
  payload :: bytes

text \<open>\<^verbatim>\<open>metadata.Protocol()\<close>; calling it on a nil interface panics (\<open>None\<close>).\<close>

fun metadata_Protocol :: "metadata \<Rightarrow> byte option" where
  "metadata_Protocol NilMetadata = None"
| "metadata_Protocol (SessionStruct ss) = Some (ss_protocol ss)"
| "metadata_Protocol (DataAckStruct das) = Some (das_protocol das)"


fun toDataAckStruct :: "metadata \<Rightarrow> dataAckStruct option" where
  "toDataAckStruct (DataAckStruct das) = Some das"
| "toDataAckStruct _ = None"

subsection \<open>The transport connection\<close>

text \<open>
  A \<^verbatim>\<open>*net.TCPConn\<close>: the bytes the peer has sent and that are not read yet (the peer's
  stream ends after them), the size asked by every \<^verbatim>\<open>io.ReadFull\<close> so far, the argument of
  every \<^verbatim>\<open>Write\<close> call so far (one list element per call), and whether \<^verbatim>\<open>Close\<close> was
  called.
\<close>

record tcp_conn =
  incoming :: bytes
  read_log :: "nat list"
  written :: "bytes list"
  conn_closed :: bool

text \<open>
  \<^verbatim>\<open>io.ReadFull(t.conn, buf)\<close> with \<open>n = len(buf)\<close>. An empty buffer is filled without a
  call of \<^verbatim>\<open>Read\<close>; a nil connection answers \<^verbatim>\<open>EINVAL\<close>; a stream that ends early gives
  \<^verbatim>\<open>EOF\<close> (nothing read) or \<^verbatim>\<open>ErrUnexpectedEOF\<close>.
\<close>

definition ReadFull :: "tcp_conn option \<Rightarrow> nat \<Rightarrow> (error + bytes) \<times> tcp_conn option" where
  "ReadFull c n =
     (case c of
        None \<Rightarrow> (if n = 0 then Inr [] else Inl EINVAL, None)
      | Some cn \<Rightarrow>
          (let cn1 = cn\<lparr>read_log := read_log cn @ [n]\<rparr> in
           if n = 0 then (Inr [], Some cn1)
           else if conn_closed cn then (Inl ErrClosed, Some cn1)
           else if length (incoming cn) < n then
             (Inl (if incoming cn = [] then EOF else ErrUnexpectedEOF),
              Some (cn1\<lparr>incoming := []\<rparr>))
           else (Inr (take n (incoming cn)), Some (cn1\<lparr>incoming := drop n (incoming cn)\<rparr>))))"


text \<open>\<^verbatim>\<open>t.conn.Close()\<close>.\<close>

definition conn_Close :: "tcp_conn option \<Rightarrow> error option \<times> tcp_conn option" where
  "conn_Close c =
     (case c of
        None \<Rightarrow> (Some EINVAL, None)
      | Some cn \<Rightarrow>
          (if conn_closed cn then (Some ErrClosed, Some cn)
           else (None, Some (cn\<lparr>conn_closed := True\<rparr>))))"

subsection \<open>What the other packages provide\<close>

text \<open>
  \<open>'k\<close> is a block cipher handle (\<^verbatim>\<open>cipher.BlockCipher\<close>), \<open>'c\<close> the state of the replay cache
  (\<^verbatim>\<open>replay.Cache\<close>), \<open>'g\<close> the state of the random number generator of \<^verbatim>\<open>rng\<close>.
  \<^verbatim>\<open>Encrypt\<close> and \<^verbatim>\<open>Decrypt\<close> advance the handle's nonce counter, so they return the
  handle as well.
\<close>

record ('k, 'c, 'g) env =
  metadataLength :: nat
  DefaultOverhead :: nat
  DefaultNonceSize :: nat
  Encrypt :: "'k \<Rightarrow> bytes \<Rightarrow> (error + bytes) \<times> 'k"
  Decrypt :: "'k \<Rightarrow> bytes \<Rightarrow> (error + bytes) \<times> 'k"
  Clone :: "'k \<Rightarrow> 'k"
  SetImplicitNonceMode :: "'k \<Rightarrow> bool \<Rightarrow> 'k"
  IsStateless :: "'k \<Rightarrow> bool"
  SelectDecrypt :: "bytes \<Rightarrow> 'k list \<Rightarrow> error + ('k \<times> bytes)"
  CloneBlockCiphers :: "'k list \<Rightarrow> 'k list"
  IsDuplicate :: "'c \<Rightarrow> bytes \<Rightarrow> bool \<times> 'c"
  Intn :: "'g \<Rightarrow> nat \<Rightarrow> nat \<times> 'g"
  newPadding :: "'g \<Rightarrow> nat \<Rightarrow> bytes \<times> 'g"
  isSessionProtocol :: "byte \<Rightarrow> bool"
  isDataAckProtocol :: "byte \<Rightarrow> bool"
  openSessionRequest :: byte
  openSessionResponse :: byte
  closeSessionRequest :: byte
  closeSessionResponse :: byte
  closeConnRequest :: byte
  closeConnResponse :: byte
  ss_Marshal :: "sessionStruct \<Rightarrow> bytes"
  ss_Unmarshal :: "bytes \<Rightarrow> error + sessionStruct"
  das_Marshal :: "dataAckStruct \<Rightarrow> bytes"
  das_Unmarshal :: "bytes \<Rightarrow> error + dataAckStruct"
  ResolveTCPAddr :: "string \<Rightarrow> string \<Rightarrow> error + string"
  DialContext :: "string \<Rightarrow> string option \<Rightarrow> string \<Rightarrow> error + tcp_conn"

subsection \<open>Process-wide state\<close>

text \<open>
  The package variable \<^verbatim>\<open>tcpReplayCache\<close>, the two counters \<^verbatim>\<open>replay.NewSession\<close> and
  \<^verbatim>\<open>replay.KnownSession\<close>, the
  generator of package \<^verbatim>\<open>rng\<close>, and the dial attempts made so far (network, local address,
  remote address).
\<close>

record ('c, 'g) world =
  tcpReplayCache :: 'c
  replay_NewSession :: nat
  replay_KnownSession :: nat
  rng :: 'g
  dial_log :: "(string \<times> string option \<times> string) list"

subsection \<open>Sessions and the underlay\<close>

text \<open>
  Modelled from the spec: the \<^verbatim>\<open>Session\<close> object (declared in another file), as
  far as the underlay touches it: its ID, role and MTU, its inbox \<^verbatim>\<open>recvChan\<close>, its
  \<^verbatim>\<open>ready\<close> latch and the counter of its wait group. The two loops of a session run as
  tasks of their own and are not part of this model.
\<close>

record session =
  sid :: "32 word"
  s_isClient :: bool
  s_mtu :: int
  recvChan :: "segment list"
  ready :: bool
  wg :: nat

text \<open>
  \<^verbatim>\<open>TCPUnderlay\<close>, with the fields of the embedded \<^verbatim>\<open>baseUnderlay\<close> first (modelled from the
  spec's data model: role, MTU, the \<open>done\<close> latch, the session table and the queue of
  accepted sessions). The session table holds the session objects; \<open>readySessions\<close> holds
  the object as it was when it was published.
\<close>

record 'k TCPUnderlay =
  isClient :: bool
  mtu :: int
  done_latch :: bool
  sessionMap :: "32 word \<rightharpoonup> session"
  readySessions :: "session list"
  conn :: "tcp_conn option"
  send :: "'k option"
  recv :: "'k option"
  candidates :: "'k list"

subsection \<open>Cipher lifecycle\<close>

text \<open>
  \<^verbatim>\<open>maybeInitSendBlockCipher\<close>. \<^verbatim>\<open>t.candidates[0]\<close> panics on an empty slice.
\<close>

definition maybeInitSendBlockCipher ::
  "('k, 'c, 'g) env \<Rightarrow> 'k TCPUnderlay \<Rightarrow> error option \<times> 'k TCPUnderlay" where
  "maybeInitSendBlockCipher env t =
     (if send t \<noteq> None then (None, t)
      else if isClient t then
        (case candidates t of
           [] \<Rightarrow> (Some (Panic ''index out of range''), t)
         | c # _ \<Rightarrow> (None, t\<lparr>send := Some (Clone env c)\<rparr>))
      else
        (case recv t of
           Some r \<Rightarrow>
             (None, t\<lparr>send := Some (SetImplicitNonceMode env
                                      (SetImplicitNonceMode env (Clone env r) False) True)\<rparr>)
         | None \<Rightarrow> (Some RecvCipherNil, t)))"

subsection \<open>Reading one segment\<close>

text \<open>
  The block that \<^verbatim>\<open>readSessionSegment\<close> and \<^verbatim>\<open>readDataAckSegment\<close> both hold for the
  payload. The length \<^verbatim>\<open>payloadLen+cipher.DefaultOverhead\<close> is computed in \<^verbatim>\<open>uint16\<close>, so
  it wraps; slicing the buffer to its first \<^verbatim>\<open>DefaultOverhead\<close> bytes panics when the
  buffer is shorter than that.
\<close>

definition readPayload ::
  "('k, 'c, 'g) env \<Rightarrow> ('c, 'g) world \<Rightarrow> 'k TCPUnderlay \<Rightarrow> 16 word \<Rightarrow>
     (error + bytes) \<times> ('c, 'g) world \<times> 'k TCPUnderlay" where
  "readPayload env w t payloadLen =
     (if payloadLen > 0 then
        (let n = unat (payloadLen + of_nat (DefaultOverhead env)) in
         case ReadFull (conn t) n of
           (Inl e, c) \<Rightarrow> (Inl (PayloadReadFailed n e), w, t\<lparr>conn := c\<rparr>)
         | (Inr encryptedPayload, c) \<Rightarrow>
             (if n < DefaultOverhead env then
                (Inl (Panic ''slice bounds out of range''), w, t\<lparr>conn := c\<rparr>)
              else
                (case IsDuplicate env (tcpReplayCache w)
                        (take (DefaultOverhead env) encryptedPayload) of
                   (dup, cache) \<Rightarrow>
                     (let w1 = w\<lparr>tcpReplayCache := cache,
                                replay_KnownSession := (if dup then replay_KnownSession w + 1
                                                 else replay_KnownSession w)\<rparr> in
                      case recv t of
                        None \<Rightarrow> (Inl (Panic ''nil pointer dereference''), w1, t\<lparr>conn := c\<rparr>)
                      | Some k \<Rightarrow>
                          (case Decrypt env k encryptedPayload of
                             (Inl e, k1) \<Rightarrow>
                               (Inl (DecryptFailed e), w1, t\<lparr>conn := c, recv := Some k1\<rparr>)
                           | (Inr decryptedPayload, k1) \<Rightarrow>
                               (Inr decryptedPayload, w1, t\<lparr>conn := c, recv := Some k1\<rparr>))))))
      else (Inr [], w, t))"

text \<open>The block that reads and discards \<open>n\<close> bytes of padding, when \<open>n > 0\<close>.\<close>

definition readPadding :: "'k TCPUnderlay \<Rightarrow> byte \<Rightarrow> error option \<times> 'k TCPUnderlay" where
  "readPadding t n =
     (if n > 0 then
        (case ReadFull (conn t) (unat n) of
           (Inl e, c) \<Rightarrow> (Some (PaddingReadFailed (unat n) e), t\<lparr>conn := c\<rparr>)
         | (Inr padding, c) \<Rightarrow> (None, t\<lparr>conn := c\<rparr>))
      else (None, t))"

text \<open>\<^verbatim>\<open>readSessionSegment\<close>: payload, then suffix padding.\<close>

definition readSessionSegment ::
  "('k, 'c, 'g) env \<Rightarrow> ('c, 'g) world \<Rightarrow> 'k TCPUnderlay \<Rightarrow> sessionStruct \<Rightarrow>
     (error + segment) \<times> ('c, 'g) world \<times> 'k TCPUnderlay" where
  "readSessionSegment env w t ss =
     (case readPayload env w t (ss_payloadLen ss) of
        (Inl e, w1, t1) \<Rightarrow> (Inl e, w1, t1)
      | (Inr decryptedPayload, w1, t1) \<Rightarrow>
          (case readPadding t1 (ss_suffixLen ss) of
             (Some e, t2) \<Rightarrow> (Inl e, w1, t2)
           | (None, t2) \<Rightarrow>
               (Inr \<lparr>metadata = SessionStruct ss, payload = decryptedPayload\<rparr>, w1, t2)))"

text \<open>\<^verbatim>\<open>readDataAckSegment\<close>: prefix padding, payload, then suffix padding.\<close>

definition readDataAckSegment ::
  "('k, 'c, 'g) env \<Rightarrow> ('c, 'g) world \<Rightarrow> 'k TCPUnderlay \<Rightarrow> dataAckStruct \<Rightarrow>
     (error + segment) \<times> ('c, 'g) world \<times> 'k TCPUnderlay" where
  "readDataAckSegment env w t das =
     (case readPadding t (das_prefixLen das) of
        (Some e, t0) \<Rightarrow> (Inl e, w, t0)
      | (None, t0) \<Rightarrow>
          (case readPayload env w t0 (das_payloadLen das) of
             (Inl e, w1, t1) \<Rightarrow> (Inl e, w1, t1)
           | (Inr decryptedPayload, w1, t1) \<Rightarrow>
               (case readPadding t1 (das_suffixLen das) of
                  (Some e, t2) \<Rightarrow> (Inl e, w1, t2)
                | (None, t2) \<Rightarrow>
                    (Inr \<lparr>metadata = DataAckStruct das, payload = decryptedPayload\<rparr>,
                     w1, t2))))"

text \<open>
  The section ``Decrypt metadata'' of \<^verbatim>\<open>readOneSegment\<close>: a client without a receive
  cipher clones its first candidate; a peer still without one selects among the cloned
  candidates; otherwise the receive cipher decrypts.
\<close>

definition decryptMetadata ::
  "('k, 'c, 'g) env \<Rightarrow> 'k TCPUnderlay \<Rightarrow> bytes \<Rightarrow> (error + bytes) \<times> 'k TCPUnderlay" where
  "decryptMetadata env t encryptedMeta =
     (case (if recv t = None \<and> isClient t then
              (case candidates t of
                 [] \<Rightarrow> Inl (Panic ''index out of range'')
               | c # _ \<Rightarrow> Inr (t\<lparr>recv := Some (Clone env c)\<rparr>))
            else Inr t) of
        Inl e \<Rightarrow> (Inl e, t)
      | Inr t1 \<Rightarrow>
          (case recv t1 of
             None \<Rightarrow>
               (case SelectDecrypt env encryptedMeta (CloneBlockCiphers env (candidates t1)) of
                  Inl e \<Rightarrow> (Inl (SelectDecryptFailed e), t1)
                | Inr (peerBlock, decryptedMeta) \<Rightarrow>
                    (Inr decryptedMeta, t1\<lparr>recv := Some (Clone env peerBlock)\<rparr>))
           | Some k \<Rightarrow>
               (case Decrypt env k encryptedMeta of
                  (Inl e, k1) \<Rightarrow> (Inl (DecryptFailed e), t1\<lparr>recv := Some k1\<rparr>)
                | (Inr decryptedMeta, k1) \<Rightarrow> (Inr decryptedMeta, t1\<lparr>recv := Some k1\<rparr>))))"

text \<open>
  The section ``Read payload and construct segment'' of \<^verbatim>\<open>readOneSegment\<close>, from the
  length check of the decrypted metadata on.
\<close>

definition constructSegment ::
  "('k, 'c, 'g) env \<Rightarrow> ('c, 'g) world \<Rightarrow> 'k TCPUnderlay \<Rightarrow> bytes \<Rightarrow>
     (error + segment) \<times> ('c, 'g) world \<times> 'k TCPUnderlay" where
  "constructSegment env w t decryptedMeta =
     (if length decryptedMeta \<noteq> metadataLength env then
        (Inl (UnexpectedMetadataSize (length decryptedMeta)), w, t)
      else
        (case decryptedMeta of
           [] \<Rightarrow> (Inl (Panic ''index out of range''), w, t)
         | p # _ \<Rightarrow>
             (if isSessionProtocol env p then
                (case ss_Unmarshal env decryptedMeta of
                   Inl e \<Rightarrow> (Inl (UnmarshalFailed e), w, t)
                 | Inr ss \<Rightarrow> readSessionSegment env w t ss)
              else if isDataAckProtocol env p then
                (case das_Unmarshal env decryptedMeta of
                   Inl e \<Rightarrow> (Inl (UnmarshalFailed e), w, t)
                 | Inr das \<Rightarrow> readDataAckSegment env w t das)
              else (Inl (UnableToHandleProtocol p), w, t))))"

text \<open>\<^verbatim>\<open>readOneSegment\<close>.\<close>

definition readOneSegment ::
  "('k, 'c, 'g) env \<Rightarrow> ('c, 'g) world \<Rightarrow> 'k TCPUnderlay \<Rightarrow>
     (error + segment) \<times> ('c, 'g) world \<times> 'k TCPUnderlay" where
  "readOneSegment env w t =
     (let firstRead = (recv t = None);
          readLen = metadataLength env + DefaultOverhead env
                    + (if recv t = None then DefaultNonceSize env else 0)
      in case ReadFull (conn t) readLen of
           (Inl e, c) \<Rightarrow> (Inl (MetadataReadFailed readLen e), w, t\<lparr>conn := c\<rparr>)
         | (Inr encryptedMeta, c) \<Rightarrow>
             (case IsDuplicate env (tcpReplayCache w)
                     (take (DefaultOverhead env) encryptedMeta) of
                (dup, cache) \<Rightarrow>
                  (if dup \<and> firstRead then
                     (Inl ReplayAttack,
                      w\<lparr>tcpReplayCache := cache, replay_NewSession := replay_NewSession w + 1\<rparr>,
                      t\<lparr>conn := c\<rparr>)
                   else
                     (let w1 = w\<lparr>tcpReplayCache := cache,
                                replay_KnownSession := (if dup then replay_KnownSession w + 1
                                                 else replay_KnownSession w)\<rparr> in
                      case decryptMetadata env (t\<lparr>conn := c\<rparr>) encryptedMeta of
                        (Inl e, t1) \<Rightarrow> (Inl e, w1, t1)
                      | (Inr decryptedMeta, t1) \<Rightarrow>
                          constructSegment env w1 t1 decryptedMeta))))"

subsection \<open>Writing one segment\<close>



subsection \<open>Sessions of an underlay\<close>

text \<open>
  Modelled from the spec: \<^verbatim>\<open>NewSession\<close>, and the methods \<^verbatim>\<open>AddSession\<close>,
  \<^verbatim>\<open>RemoveSession\<close> and \<^verbatim>\<open>Close\<close> of the embedded \<^verbatim>\<open>baseUnderlay\<close> (all declared in other
  files). A session ID is nonzero and unique within an underlay; adding registers the
  session in the table; removing deletes its entry; closing closes the \<open>done\<close> latch.
\<close>

definition NewSession :: "32 word \<Rightarrow> bool \<Rightarrow> int \<Rightarrow> session" where
  "NewSession i c m =
     \<lparr>sid = i, s_isClient = c, s_mtu = m, recvChan = [], ready = False, wg = 0\<rparr>"

definition base_AddSession :: "'k TCPUnderlay \<Rightarrow> session \<Rightarrow> error option \<times> 'k TCPUnderlay" where
  "base_AddSession t s =
     (if sid s = 0 then (Some (ReservedSessionID (sid s)), t)
      else if sessionMap t (sid s) \<noteq> None then (Some (SessionIDAlreadyUsed (sid s)), t)
      else (None, t\<lparr>sessionMap := (sessionMap t)(sid s \<mapsto> s)\<rparr>))"

definition base_RemoveSession :: "'k TCPUnderlay \<Rightarrow> session \<Rightarrow> error option \<times> 'k TCPUnderlay" where
  "base_RemoveSession t s = (None, t\<lparr>sessionMap := (sessionMap t)(sid s := None)\<rparr>)"

definition base_Close :: "'k TCPUnderlay \<Rightarrow> 'k TCPUnderlay" where
  "base_Close t = t\<lparr>done_latch := True\<rparr>"

text \<open>\<^verbatim>\<open>TCPUnderlay.Close\<close>.\<close>

definition Close :: "'k TCPUnderlay \<Rightarrow> error option \<times> 'k TCPUnderlay" where
  "Close t =
     (if done_latch t then (None, t)
      else
        (let t1 = base_Close t in
         case conn_Close (conn t1) of (r, c) \<Rightarrow> (r, t1\<lparr>conn := c\<rparr>)))"

text \<open>
  \<^verbatim>\<open>TCPUnderlay.AddSession\<close>. It returns the session as well, since it closes the session's
  \<open>ready\<close> latch (closing a closed channel panics) and adds the two loops to its wait group.
\<close>

definition AddSession ::
  "'k TCPUnderlay \<Rightarrow> session \<Rightarrow> error option \<times> 'k TCPUnderlay \<times> session" where
  "AddSession t s =
     (case base_AddSession t s of
        (Some e, t1) \<Rightarrow> (Some e, t1, s)
      | (None, t1) \<Rightarrow>
          (if ready s then (Some (Panic ''close of closed channel''), t1, s)
           else
             (let s1 = s\<lparr>ready := True, wg := wg s + 2\<rparr> in
              (None, t1\<lparr>sessionMap := (sessionMap t1)(sid s \<mapsto> s1)\<rparr>, s1))))"

text \<open>
  \<^verbatim>\<open>TCPUnderlay.RemoveSession\<close>: the result of \<^verbatim>\<open>t.Close()\<close> is dropped, the error of the
  base method is returned.
\<close>

definition RemoveSession :: "'k TCPUnderlay \<Rightarrow> session \<Rightarrow> error option \<times> 'k TCPUnderlay" where
  "RemoveSession t s =
     (case base_RemoveSession t s of
        (err, t1) \<Rightarrow>
          (if dom (sessionMap t1) = {} then (err, snd (Close t1)) else (err, t1)))"

text \<open>
  \<^verbatim>\<open>session.recvChan <- seg\<close> for the session object found in the table under the key
  \<open>k\<close>: the table points to the object, so the table's entry changes with it.
\<close>

definition deliver :: "'k TCPUnderlay \<Rightarrow> 32 word \<Rightarrow> session \<Rightarrow> segment \<Rightarrow> 'k TCPUnderlay \<times> session" where
  "deliver t k s seg =
     (let s1 = s\<lparr>recvChan := recvChan s @ [seg]\<rparr> in
      (t\<lparr>sessionMap := (sessionMap t)(k \<mapsto> s1)\<rparr>, s1))"

text \<open>
  \<^verbatim>\<open>onOpenSessionRequest\<close>. The type assertion on the metadata panics for another
  metadata type. The result of \<^verbatim>\<open>t.AddSession\<close> is dropped; when it failed, the new session
  is not in the table and only its own inbox gets the segment.
\<close>

definition onOpenSessionRequest ::
  "'k TCPUnderlay \<Rightarrow> segment \<Rightarrow> error option \<times> 'k TCPUnderlay" where
  "onOpenSessionRequest t seg =
     (if isClient t then (Some ErrInvalidOperation, t)
      else
        (case metadata seg of
           SessionStruct ss \<Rightarrow>
             (let sessionID = ss_sessionID ss in
              if sessionID = 0 then (Some (ReservedSessionID sessionID), t)
              else if sessionMap t sessionID \<noteq> None then
                (Some (SessionIDAlreadyUsed sessionID), t)
              else
                (case AddSession t (NewSession sessionID (isClient t) (mtu t)) of
                   (None, t1, s1) \<Rightarrow>
                     (case deliver t1 sessionID s1 seg of
                        (t2, s2) \<Rightarrow> (None, t2\<lparr>readySessions := readySessions t2 @ [s2]\<rparr>))
                 | (Some e, t1, s1) \<Rightarrow>
                     (None, t1\<lparr>readySessions :=
                                readySessions t1 @ [s1\<lparr>recvChan := recvChan s1 @ [seg]\<rparr>]\<rparr>)))
         | _ \<Rightarrow> (Some (Panic ''interface conversion''), t)))"

text \<open>\<^verbatim>\<open>onOpenSessionResponse\<close>.\<close>

definition onOpenSessionResponse ::
  "'k TCPUnderlay \<Rightarrow> segment \<Rightarrow> error option \<times> 'k TCPUnderlay" where
  "onOpenSessionResponse t seg =
     (if \<not> isClient t then (Some ErrInvalidOperation, t)
      else
        (case metadata seg of
           SessionStruct ss \<Rightarrow>
             (case sessionMap t (ss_sessionID ss) of
                None \<Rightarrow> (Some (SessionIDNotFound (ss_sessionID ss)), t)
              | Some s \<Rightarrow> (None, fst (deliver t (ss_sessionID ss) s seg)))
         | _ \<Rightarrow> (Some (Panic ''interface conversion''), t)))"

text \<open>
  \<^verbatim>\<open>onCloseSession\<close>. \<^verbatim>\<open>session.wg.Wait()\<close> returns once the two loops of the session have
  left, which brings the counter to zero.
\<close>

definition onCloseSession ::
  "'k TCPUnderlay \<Rightarrow> segment \<Rightarrow> error option \<times> 'k TCPUnderlay" where
  "onCloseSession t seg =
     (case metadata seg of
        SessionStruct ss \<Rightarrow>
          (case sessionMap t (ss_sessionID ss) of
             None \<Rightarrow> (Some (SessionIDNotFound (ss_sessionID ss)), t)
           | Some s \<Rightarrow>
               (case deliver t (ss_sessionID ss) s seg of
                  (t1, s1) \<Rightarrow>
                    (let s2 = s1\<lparr>wg := 0\<rparr>;
                         t2 = t1\<lparr>sessionMap := (sessionMap t1)(ss_sessionID ss \<mapsto> s2)\<rparr> in
                     (None, snd (RemoveSession t2 s2)))))
      | _ \<Rightarrow> (Some (Panic ''interface conversion''), t))"

subsection \<open>The event loop\<close>

text \<open>
  The body of the loop of \<^verbatim>\<open>RunEventLoop\<close> after a segment was read: the dispatch on the
  protocol of the segment. The result \<open>Some e\<close> makes the loop return \<open>e\<close>; \<open>None\<close> lets it
  go on with the next segment. \<^verbatim>\<open>das.sessionID\<close> on the nil pointer that
  \<^verbatim>\<open>toDataAckStruct\<close> gives for another metadata type panics.
\<close>

definition dispatch ::
  "('k, 'c, 'g) env \<Rightarrow> 'k TCPUnderlay \<Rightarrow> segment \<Rightarrow> error option \<times> 'k TCPUnderlay" where
  "dispatch env t seg =
     (case metadata_Protocol (metadata seg) of
        None \<Rightarrow> (Some (Panic ''nil pointer dereference''), t)
      | Some p \<Rightarrow>
          (if isSessionProtocol env p then
             (if p = openSessionRequest env then
                (case onOpenSessionRequest t seg of
                   (Some err, t1) \<Rightarrow> (Some (OnOpenSessionRequestFailed err), t1)
                 | (None, t1) \<Rightarrow> (None, t1))
              else if p = openSessionResponse env then
                (case onOpenSessionResponse t seg of
                   (Some err, t1) \<Rightarrow> (Some (OnOpenSessionResponseFailed err), t1)
                 | (None, t1) \<Rightarrow> (None, t1))
              else if p = closeSessionRequest env \<or> p = closeSessionResponse env then
                (case onCloseSession t seg of
                   (Some err, t1) \<Rightarrow> (Some (OnCloseSessionFailed err), t1)
                 | (None, t1) \<Rightarrow> (None, t1))
              else if p = closeConnRequest env then (None, t)
              else if p = closeConnResponse env then (None, t)
              else (None, t))
           else if isDataAckProtocol env p then
             (case toDataAckStruct (metadata seg) of
                None \<Rightarrow> (Some (Panic ''nil pointer dereference''), t)
              | Some das \<Rightarrow>
                  (case sessionMap t (das_sessionID das) of
                     None \<Rightarrow> (None, t)
                   | Some s \<Rightarrow> (None, fst (deliver t (das_sessionID das) s seg))))
           else (None, t)))"

text \<open>
  The loop of \<^verbatim>\<open>RunEventLoop\<close>. The list holds what the check of \<^verbatim>\<open>ctx.Done()\<close> observes
  at each round, one element per round; the loop returns \<open>None\<close> when the list is used up
  before the Go loop has returned.
\<close>

fun eventLoop ::
  "('k, 'c, 'g) env \<Rightarrow> bool list \<Rightarrow> ('c, 'g) world \<Rightarrow> 'k TCPUnderlay \<Rightarrow>
     (error option \<times> ('c, 'g) world \<times> 'k TCPUnderlay) option" where
  "eventLoop env [] w t = None"
| "eventLoop env (ctxDone # ctx) w t =
     (if ctxDone then Some (None, w, t)
      else if done_latch t then Some (None, w, t)
      else
        (case readOneSegment env w t of
           (Inl err, w1, t1) \<Rightarrow> Some (Some (ReadOneSegmentFailed err), w1, t1)
         | (Inr seg, w1, t1) \<Rightarrow>
             (case dispatch env t1 seg of
                (Some err, t2) \<Rightarrow> Some (Some err, w1, t2)
              | (None, t2) \<Rightarrow> eventLoop env ctx w1 t2)))"

text \<open>\<^verbatim>\<open>RunEventLoop\<close>.\<close>

definition RunEventLoop ::
  "('k, 'c, 'g) env \<Rightarrow> bool list \<Rightarrow> ('c, 'g) world \<Rightarrow> 'k TCPUnderlay \<Rightarrow>
     (error option \<times> ('c, 'g) world \<times> 'k TCPUnderlay) option" where
  "RunEventLoop env ctx w t =
     (if conn t = None then Some (Some ErrNullPointer, w, t)
      else eventLoop env ctx w t)"

subsection \<open>Construction\<close>

text \<open>
  Modelled from the spec: \<^verbatim>\<open>newBaseUnderlay\<close> (declared in another file) gives an underlay
  with the role and MTU asked for, an open \<open>done\<close> latch and no session.
\<close>

definition newBaseUnderlay :: "bool \<Rightarrow> int \<Rightarrow> 'k TCPUnderlay" where
  "newBaseUnderlay c m =
     \<lparr>isClient = c, mtu = m, done_latch = False, sessionMap = Map.empty, readySessions = [],
      conn = None, send = None, recv = None, candidates = []\<rparr>"

text \<open>\<^verbatim>\<open>NewTCPUnderlay\<close>. Every call of \<^verbatim>\<open>DialContext\<close> is recorded in the world.\<close>

definition NewTCPUnderlay ::
  "('k, 'c, 'g) env \<Rightarrow> ('c, 'g) world \<Rightarrow> string \<Rightarrow> string \<Rightarrow> string \<Rightarrow> int \<Rightarrow> 'k \<Rightarrow>
     (error + 'k TCPUnderlay) \<times> ('c, 'g) world" where
  "NewTCPUnderlay env w network laddr raddr m block =
     (if network \<noteq> ''tcp'' \<and> network \<noteq> ''tcp4'' \<and> network \<noteq> ''tcp6'' then
        (Inl (NetworkNotSupported network), w)
      else if IsStateless env block then (Inl StatelessCipher, w)
      else
        (case (if laddr \<noteq> [] then
                 (case ResolveTCPAddr env network laddr of
                    Inl e \<Rightarrow> Inl (ResolveTCPAddrFailed e)
                  | Inr tcpLocalAddr \<Rightarrow> Inr (Some tcpLocalAddr))
               else Inr None) of
           Inl e \<Rightarrow> (Inl e, w)
         | Inr localAddr \<Rightarrow>
             (let w1 = w\<lparr>dial_log := dial_log w @ [(network, localAddr, raddr)]\<rparr> in
              case DialContext env network localAddr raddr of
                Inl e \<Rightarrow> (Inl (DialContextFailed e), w1)
              | Inr c \<Rightarrow>
                  (Inr ((newBaseUnderlay True m)\<lparr>conn := Some c, candidates := [block]\<rparr>), w1))))"

subsection \<open>A sample environment\<close>

text \<open>
  One instance of \<open>env\<close>, on which the definitions above can be run. The cipher is a toy:
  a ciphertext is the plaintext followed by a 16-byte tag that repeats the key, with a
  24-byte nonce in front of the first ciphertext of a handle in implicit-nonce mode (and
  of every ciphertext outside that mode); decryption checks the tag. Cloning copies the
  handle; leaving implicit-nonce mode forgets the nonce; a handle outside that mode is
  stateless. The replay cache is the list of
  the tags seen; the random number generator is the list of its future draws. The codec
  keeps the low byte of every number, in the order of the record fields, in 32 bytes.
\<close>

record sample_cipher =
  ck_key :: byte
  ck_implicit :: bool
  ck_nonce :: "nat option"

definition sample_Encrypt :: "sample_cipher \<Rightarrow> bytes \<Rightarrow> (error + bytes) \<times> sample_cipher" where
  "sample_Encrypt k pt =
     (case (if ck_implicit k then ck_nonce k else None) of
        Some n \<Rightarrow> (Inr (pt @ replicate 16 (ck_key k)), k\<lparr>ck_nonce := Some (n + 1)\<rparr>)
      | None \<Rightarrow>
          (Inr (replicate 24 0 @ pt @ replicate 16 (ck_key k)),
           k\<lparr>ck_nonce := (if ck_implicit k then Some 0 else None)\<rparr>))"

definition sample_Decrypt :: "sample_cipher \<Rightarrow> bytes \<Rightarrow> (error + bytes) \<times> sample_cipher" where
  "sample_Decrypt k ct =
     (let body = (case (if ck_implicit k then ck_nonce k else None) of
                    Some n \<Rightarrow> ct | None \<Rightarrow> drop 24 ct) in
      if 16 \<le> length body \<and> drop (length body - 16) body = replicate 16 (ck_key k) then
        (Inr (take (length body - 16) body),
         k\<lparr>ck_nonce := (case (if ck_implicit k then ck_nonce k else None) of
                          Some n \<Rightarrow> Some (n + 1)
                        | None \<Rightarrow> (if ck_implicit k then Some 0 else None))\<rparr>)
      else (Inl (External ''message authentication failed''), k))"

fun sample_SelectDecrypt :: "bytes \<Rightarrow> sample_cipher list \<Rightarrow> error + (sample_cipher \<times> bytes)" where
  "sample_SelectDecrypt ct [] = Inl (External ''no cipher decrypts the data'')"
| "sample_SelectDecrypt ct (k # ks) =
     (case sample_Decrypt k ct of
        (Inr pt, k1) \<Rightarrow> Inr (k1, pt)
      | (Inl e, k1) \<Rightarrow> sample_SelectDecrypt ct ks)"

definition sample_ss_Marshal :: "sessionStruct \<Rightarrow> bytes" where
  "sample_ss_Marshal ss =
     [ss_protocol ss, ucast (ss_sessionID ss), ucast (ss_seq ss), ss_flags ss,
      ucast (ss_payloadLen ss), ss_suffixLen ss] @ replicate 26 0"

definition sample_ss_Unmarshal :: "bytes \<Rightarrow> error + sessionStruct" where
  "sample_ss_Unmarshal b =
     (case b of
        p # i # q # f # l # sfx # _ \<Rightarrow>
          Inr \<lparr>ss_protocol = p, ss_sessionID = ucast i, ss_seq = ucast q, ss_flags = f,
               ss_payloadLen = ucast l, ss_suffixLen = sfx\<rparr>
      | _ \<Rightarrow> Inl (External ''input too short''))"

definition sample_das_Marshal :: "dataAckStruct \<Rightarrow> bytes" where
  "sample_das_Marshal das =
     [das_protocol das, ucast (das_sessionID das), ucast (das_seq das), ucast (das_ack das),
      ucast (das_window das), ucast (das_payloadLen das), das_prefixLen das,
      das_suffixLen das] @ replicate 24 0"

definition sample_das_Unmarshal :: "bytes \<Rightarrow> error + dataAckStruct" where
  "sample_das_Unmarshal b =
     (case b of
        p # i # q # a # wd # l # pfx # sfx # _ \<Rightarrow>
          Inr \<lparr>das_protocol = p, das_sessionID = ucast i, das_seq = ucast q, das_ack = ucast a,
               das_window = ucast wd, das_payloadLen = ucast l, das_prefixLen = pfx,
               das_suffixLen = sfx\<rparr>
      | _ \<Rightarrow> Inl (External ''input too short''))"

definition sample_IsDuplicate :: "bytes list \<Rightarrow> bytes \<Rightarrow> bool \<times> bytes list" where
  "sample_IsDuplicate c tag = (if tag \<in> set c then (True, c) else (False, tag # c))"

definition sample_Intn :: "nat list \<Rightarrow> nat \<Rightarrow> nat \<times> nat list" where
  "sample_Intn g n = (case g of [] \<Rightarrow> (0, []) | x # xs \<Rightarrow> (x mod n, xs))"

definition sample_newPadding :: "nat list \<Rightarrow> nat \<Rightarrow> bytes \<times> nat list" where
  "sample_newPadding g n = (replicate n 0, g)"

definition sample_conn :: "bytes \<Rightarrow> tcp_conn" where
  "sample_conn b = \<lparr>incoming = b, read_log = [], written = [], conn_closed = False\<rparr>"

definition sample_env :: "(sample_cipher, bytes list, nat list) env" where
  "sample_env =
     \<lparr>metadataLength = 32, DefaultOverhead = 16, DefaultNonceSize = 24,
      Encrypt = sample_Encrypt, Decrypt = sample_Decrypt, Clone = (\<lambda>k. k),
      SetImplicitNonceMode =
        (\<lambda>k enable. k\<lparr>ck_implicit := enable,
                        ck_nonce := (if enable then ck_nonce k else None)\<rparr>),
      IsStateless = (\<lambda>k. \<not> ck_implicit k),
      SelectDecrypt = sample_SelectDecrypt, CloneBlockCiphers = map (\<lambda>k. k),
      IsDuplicate = sample_IsDuplicate, Intn = sample_Intn, newPadding = sample_newPadding,
      isSessionProtocol = (\<lambda>p. p \<le> 5), isDataAckProtocol = (\<lambda>p. 6 \<le> p \<and> p \<le> 9),
      openSessionRequest = 2, openSessionResponse = 3,
      closeSessionRequest = 4, closeSessionResponse = 5,
      closeConnRequest = 0, closeConnResponse = 1,
      ss_Marshal = sample_ss_Marshal, ss_Unmarshal = sample_ss_Unmarshal,
      das_Marshal = sample_das_Marshal, das_Unmarshal = sample_das_Unmarshal,
      ResolveTCPAddr = (\<lambda>network a. Inr a),
      DialContext = (\<lambda>network la ra. Inr (sample_conn []))\<rparr>"

definition sample_world :: "(bytes list, nat list) world" where
  "sample_world =
     \<lparr>tcpReplayCache = [], replay_NewSession = 0, replay_KnownSession = 0, rng = [7, 300],
      dial_log = []\<rparr>"

definition sample_key :: "byte \<Rightarrow> sample_cipher" where
  "sample_key b = \<lparr>ck_key = b, ck_implicit = True, ck_nonce = None\<rparr>"

text \<open>
  A client on a connection with the incoming bytes \<open>b\<close>, as \<open>NewTCPUnderlay\<close> builds it, and
  a server with two candidate ciphers.
\<close>

definition sample_client :: "bytes \<Rightarrow> sample_cipher TCPUnderlay" where
  "sample_client b =
     (newBaseUnderlay True 1400)\<lparr>conn := Some (sample_conn b), candidates := [sample_key 5]\<rparr>"

definition sample_server :: "bytes \<Rightarrow> sample_cipher TCPUnderlay" where
  "sample_server b =
     (newBaseUnderlay False 1400)\<lparr>conn := Some (sample_conn b),
                                  candidates := [sample_key 4, sample_key 5]\<rparr>"

text \<open>The first frame that a peer holding the key \<open>k\<close> sends for the 32 bytes \<open>m\<close>.\<close>

definition sample_first_frame :: "byte \<Rightarrow> bytes \<Rightarrow> bytes" where
  "sample_first_frame k m = replicate 24 0 @ m @ replicate 16 k"

section \<open>Properties\<close>

subsection \<open>The sample environment, field by field\<close>

lemma sample_env_sel [simp]:
  "metadataLength sample_env = 32"
  "DefaultOverhead sample_env = 16"
  "DefaultNonceSize sample_env = 24"
  "Encrypt sample_env = sample_Encrypt"
  "Decrypt sample_env = sample_Decrypt"
  "Clone sample_env = (\<lambda>k. k)"
  "SetImplicitNonceMode sample_env =
     (\<lambda>k enable. k\<lparr>ck_implicit := enable, ck_nonce := (if enable then ck_nonce k else None)\<rparr>)"
  "IsStateless sample_env = (\<lambda>k. \<not> ck_implicit k)"
  "SelectDecrypt sample_env = sample_SelectDecrypt"
  "CloneBlockCiphers sample_env = map (\<lambda>k. k)"
  "IsDuplicate sample_env = sample_IsDuplicate"
  "Intn sample_env = sample_Intn"
  "newPadding sample_env = sample_newPadding"
  "isSessionProtocol sample_env = (\<lambda>p. p \<le> 5)"
  "isDataAckProtocol sample_env = (\<lambda>p. 6 \<le> p \<and> p \<le> 9)"
  "openSessionRequest sample_env = 2"
  "openSessionResponse sample_env = 3"
  "closeSessionRequest sample_env = 4"
  "closeSessionResponse sample_env = 5"
  "closeConnRequest sample_env = 0"
  "closeConnResponse sample_env = 1"
  "ss_Marshal sample_env = sample_ss_Marshal"
  "ss_Unmarshal sample_env = sample_ss_Unmarshal"
  "das_Marshal sample_env = sample_das_Marshal"
  "das_Unmarshal sample_env = sample_das_Unmarshal"
  "ResolveTCPAddr sample_env = (\<lambda>network a. Inr a)"
  "DialContext sample_env = (\<lambda>network la ra. Inr (sample_conn []))"
  by (simp_all add: sample_env_def)

subsection \<open>Initialising the send cipher\<close>

text \<open>
  Claim C6. \<^verbatim>\<open>maybeInitSendBlockCipher\<close> leaves a send cipher that is already there as it
  is; on a client it sets the send cipher to a clone of the sole candidate; on a server
  with a receive cipher it sets the send cipher to a clone of the receive cipher whose
  implicit-nonce mode was set to false and then to true; on a server without a receive
  cipher it fails, and the underlay (so its send cipher, still absent) is unchanged.
\<close>

theorem maybeInitSendBlockCipher_cases:
  "(send t = Some k \<longrightarrow> maybeInitSendBlockCipher env t = (None, t))
   \<and> (send t = None \<and> isClient t \<and> candidates t = [c] \<longrightarrow>
        maybeInitSendBlockCipher env t = (None, t\<lparr>send := Some (Clone env c)\<rparr>))
   \<and> (send t = None \<and> \<not> isClient t \<and> recv t = Some r \<longrightarrow>
        maybeInitSendBlockCipher env t =
          (None, t\<lparr>send := Some (SetImplicitNonceMode env
                                   (SetImplicitNonceMode env (Clone env r) False) True)\<rparr>))
   \<and> (send t = None \<and> \<not> isClient t \<and> recv t = None \<longrightarrow>
        maybeInitSendBlockCipher env t = (Some RecvCipherNil, t))"
  by (simp add: maybeInitSendBlockCipher_def)

theorem maybeInitSendBlockCipher_cases_witness:
  "maybeInitSendBlockCipher sample_env ((sample_client [])\<lparr>send := Some (sample_key 9)\<rparr>)
     = (None, (sample_client [])\<lparr>send := Some (sample_key 9)\<rparr>)
   \<and> maybeInitSendBlockCipher sample_env (sample_client [])
     = (None, (sample_client [])\<lparr>send := Some (sample_key 5)\<rparr>)
   \<and> maybeInitSendBlockCipher sample_env
        ((sample_server [])\<lparr>recv := Some ((sample_key 4)\<lparr>ck_nonce := Some 3\<rparr>)\<rparr>)
     = (None, (sample_server [])\<lparr>recv := Some ((sample_key 4)\<lparr>ck_nonce := Some 3\<rparr>),
                                 send := Some (sample_key 4)\<rparr>)
   \<and> maybeInitSendBlockCipher sample_env (sample_server [])
     = (Some RecvCipherNil, sample_server [])"
  using maybeInitSendBlockCipher_cases
          [of "(sample_client [])\<lparr>send := Some (sample_key 9)\<rparr>" "sample_key 9" sample_env]
        maybeInitSendBlockCipher_cases
          [of "sample_client []" _ sample_env "sample_key 5"]
        maybeInitSendBlockCipher_cases
          [of "(sample_server [])\<lparr>recv := Some ((sample_key 4)\<lparr>ck_nonce := Some 3\<rparr>)\<rparr>" _
              sample_env _ "(sample_key 4)\<lparr>ck_nonce := Some 3\<rparr>"]
        maybeInitSendBlockCipher_cases [of "sample_server []" _ sample_env]
  by (simp add: sample_client_def sample_server_def newBaseUnderlay_def sample_key_def)

subsection \<open>Segments that the writer refuses\<close>



subsection \<open>Construction with a stateless cipher\<close>

text \<open>
  Claim C9. For a block cipher whose \<^verbatim>\<open>IsStateless()\<close> is true, \<^verbatim>\<open>NewTCPUnderlay\<close> returns
  an error (that of the unsupported network when the network is none of tcp, tcp4, tcp6,
  else that of the stateless cipher) and the world is unchanged: no connection was dialed
  and no underlay was built.
\<close>

theorem NewTCPUnderlay_rejects_stateless:
  "IsStateless env block \<Longrightarrow>
     NewTCPUnderlay env w network laddr raddr m block =
       (Inl (if network \<noteq> ''tcp'' \<and> network \<noteq> ''tcp4'' \<and> network \<noteq> ''tcp6''
             then NetworkNotSupported network else StatelessCipher), w)"
  by (simp add: NewTCPUnderlay_def)

theorem NewTCPUnderlay_rejects_stateless_witness:
  "NewTCPUnderlay sample_env sample_world ''tcp'' [] ''192.0.2.1:443'' 1400
     ((sample_key 5)\<lparr>ck_implicit := False\<rparr>) = (Inl StatelessCipher, sample_world)
   \<and> dial_log sample_world = []"
  using NewTCPUnderlay_rejects_stateless
          [of sample_env "(sample_key 5)\<lparr>ck_implicit := False\<rparr>" sample_world
              "''tcp''" "[]" "''192.0.2.1:443''" 1400]
  by (simp add: sample_key_def sample_world_def)

text \<open>With the same arguments and a cipher that keeps state, the connection is dialed.\<close>

lemma NewTCPUnderlay_accepts_stateful:
  "NewTCPUnderlay sample_env sample_world ''tcp'' [] ''192.0.2.1:443'' 1400 (sample_key 5)
     = (Inr (sample_client []),
        sample_world\<lparr>dial_log := [(''tcp'', None, ''192.0.2.1:443'')]\<rparr>)"
  by (simp add: NewTCPUnderlay_def sample_key_def sample_world_def sample_client_def)

end
